theory Spec2Isabelle
  imports Main
begin

section \<open>Python values\<close>

text \<open>
  The four enumerations of \<^verbatim>\<open>core/models.py\<close>. Each is declared as
  \<^verbatim>\<open>class X(str, Enum)\<close>, so every member carries a string in its
  \<^verbatim>\<open>value\<close> attribute. \<^verbatim>\<open>CommentStatus\<close> and \<^verbatim>\<open>PingStatus\<close> both name
  their members OPEN and CLOSED; the constructors are prefixed to keep them apart.
\<close>

datatype PostStatus =
  PUBLISH | FUTURE | DRAFT | PENDING | PRIVATE | TRASH | AUTO_DRAFT | INHERIT

datatype CommentStatus = COMMENT_OPEN | COMMENT_CLOSED

datatype PingStatus = PING_OPEN | PING_CLOSED

datatype PostFormat =
  STANDARD | ASIDE | CHAT | GALLERY | LINK | IMAGE | QUOTE | STATUS | VIDEO | AUDIO

fun PostStatus_value :: "PostStatus \<Rightarrow> string" where
  "PostStatus_value PUBLISH = ''publish''"
| "PostStatus_value FUTURE = ''future''"
| "PostStatus_value DRAFT = ''draft''"
| "PostStatus_value PENDING = ''pending''"
| "PostStatus_value PRIVATE = ''private''"
| "PostStatus_value TRASH = ''trash''"
| "PostStatus_value AUTO_DRAFT = ''auto-draft''"
| "PostStatus_value INHERIT = ''inherit''"

fun PostStatus_name :: "PostStatus \<Rightarrow> string" where
  "PostStatus_name PUBLISH = ''PUBLISH''"
| "PostStatus_name FUTURE = ''FUTURE''"
| "PostStatus_name DRAFT = ''DRAFT''"
| "PostStatus_name PENDING = ''PENDING''"
| "PostStatus_name PRIVATE = ''PRIVATE''"
| "PostStatus_name TRASH = ''TRASH''"
| "PostStatus_name AUTO_DRAFT = ''AUTO_DRAFT''"
| "PostStatus_name INHERIT = ''INHERIT''"

fun CommentStatus_value :: "CommentStatus \<Rightarrow> string" where
  "CommentStatus_value COMMENT_OPEN = ''open''"
| "CommentStatus_value COMMENT_CLOSED = ''closed''"

fun CommentStatus_name :: "CommentStatus \<Rightarrow> string" where
  "CommentStatus_name COMMENT_OPEN = ''OPEN''"
| "CommentStatus_name COMMENT_CLOSED = ''CLOSED''"

fun PingStatus_value :: "PingStatus \<Rightarrow> string" where
  "PingStatus_value PING_OPEN = ''open''"
| "PingStatus_value PING_CLOSED = ''closed''"

fun PingStatus_name :: "PingStatus \<Rightarrow> string" where
  "PingStatus_name PING_OPEN = ''OPEN''"
| "PingStatus_name PING_CLOSED = ''CLOSED''"

fun PostFormat_value :: "PostFormat \<Rightarrow> string" where
  "PostFormat_value STANDARD = ''standard''"
| "PostFormat_value ASIDE = ''aside''"
| "PostFormat_value CHAT = ''chat''"
| "PostFormat_value GALLERY = ''gallery''"
| "PostFormat_value LINK = ''link''"
| "PostFormat_value IMAGE = ''image''"
| "PostFormat_value QUOTE = ''quote''"
| "PostFormat_value STATUS = ''status''"
| "PostFormat_value VIDEO = ''video''"
| "PostFormat_value AUDIO = ''audio''"

fun PostFormat_name :: "PostFormat \<Rightarrow> string" where
  "PostFormat_name STANDARD = ''STANDARD''"
| "PostFormat_name ASIDE = ''ASIDE''"
| "PostFormat_name CHAT = ''CHAT''"
| "PostFormat_name GALLERY = ''GALLERY''"
| "PostFormat_name LINK = ''LINK''"
| "PostFormat_name IMAGE = ''IMAGE''"
| "PostFormat_name QUOTE = ''QUOTE''"
| "PostFormat_name STATUS = ''STATUS''"
| "PostFormat_name VIDEO = ''VIDEO''"
| "PostFormat_name AUDIO = ''AUDIO''"

text \<open>
  A member of some enumeration. The helpers of \<^verbatim>\<open>utils/helpers.py\<close> accept a member
  of any enumeration, so besides the four of the repository there is \<open>OtherEnum\<close>: a
  member of a caller's own enumeration with string values, given by its class name, its
  member name and its value.
\<close>

datatype enum_member =
  OfPostStatus PostStatus
| OfCommentStatus CommentStatus
| OfPingStatus PingStatus
| OfPostFormat PostFormat
| OtherEnum string string string

fun enum_value :: "enum_member \<Rightarrow> string" where
  "enum_value (OfPostStatus e) = PostStatus_value e"
| "enum_value (OfCommentStatus e) = CommentStatus_value e"
| "enum_value (OfPingStatus e) = PingStatus_value e"
| "enum_value (OfPostFormat e) = PostFormat_value e"
| "enum_value (OtherEnum cls nm v) = v"

fun enum_qualname :: "enum_member \<Rightarrow> string" where
  "enum_qualname (OfPostStatus e) = ''PostStatus.'' @ PostStatus_name e"
| "enum_qualname (OfCommentStatus e) = ''CommentStatus.'' @ CommentStatus_name e"
| "enum_qualname (OfPingStatus e) = ''PingStatus.'' @ PingStatus_name e"
| "enum_qualname (OfPostFormat e) = ''PostFormat.'' @ PostFormat_name e"
| "enum_qualname (OtherEnum cls nm v) = cls @ ''.'' @ nm"

text \<open>
  The exceptions of Python that the modelled code can raise. A function that can raise
  returns a sum, with the exception on the left.
\<close>

datatype py_error = AttributeError | ValueError | KeyError

text \<open>
  The decimal numeral of an integer: the digits, most significant first, after a minus
  sign when the number is negative. Strings are lists of bytes; a Python string outside
  ASCII is held as its UTF-8 encoding. \<open>digit_char\<close> is only applied below 10.
\<close>

definition digit_char :: "nat \<Rightarrow> char" where
  "digit_char d = ''0123456789'' ! d"

function str_nat :: "nat \<Rightarrow> string" where
  "str_nat n = (if n < 10 then [digit_char n] else str_nat (n div 10) @ [digit_char (n mod 10)])"
  by pat_completeness auto
termination
  by (relation "measure (\<lambda>n. n)") auto

declare str_nat.simps [simp del]

definition decimal :: "int \<Rightarrow> string" where
  "decimal i = (if i < 0 then CHR ''-'' # str_nat (nat (- i)) else str_nat (nat i))"

text \<open>
  Python's \<^verbatim>\<open>str\<close> on an \<^verbatim>\<open>int\<close>, which is also what an f-string does with an
  \<^verbatim>\<open>int\<close> field. CPython limits the conversion: when the numeral has more digits than
  \<^verbatim>\<open>sys.int_info.default_max_str_digits\<close>, which is 4300, the sign not counted, it raises
  \<^verbatim>\<open>ValueError\<close>. The repository does not change the limit.
\<close>

definition num_digits :: "int \<Rightarrow> nat" where
  "num_digits i = length (str_nat (nat \<bar>i\<bar>))"

definition int_max_str_digits :: nat where
  "int_max_str_digits = 4300"

definition str_int :: "int \<Rightarrow> py_error + string" where
  "str_int i = (if num_digits i > int_max_str_digits then Inl ValueError else Inr (decimal i))"

text \<open>
  Reading a decimal numeral back, as \<^verbatim>\<open>int(s)\<close> does on the strings that \<^verbatim>\<open>str\<close>
  makes. It serves to state that \<open>decimal\<close> is the decimal numeral of its argument.
\<close>

definition digit_value :: "char \<Rightarrow> nat" where
  "digit_value c = of_char c - 48"

definition parse_nat :: "string \<Rightarrow> nat" where
  "parse_nat s = foldl (\<lambda>acc c. 10 * acc + digit_value c) 0 s"

definition parse_int :: "string \<Rightarrow> int" where
  "parse_int s =
     (if s \<noteq> [] \<and> hd s = CHR ''-'' then - int (parse_nat (tl s)) else int (parse_nat s))"

section \<open>FilterValue resolution: \<^verbatim>\<open>utils/helpers.py\<close>\<close>

text \<open>
  The values the helpers are given: a raw string, an integer, or an enumeration member.
\<close>

datatype filter_value =
  RawString string
| IntLike int
| EnumMember enum_member

text \<open>
  \<open>getattr_value\<close> is the attribute read \<^verbatim>\<open>item.value\<close>: neither \<^verbatim>\<open>str\<close> nor
  \<^verbatim>\<open>int\<close> has an attribute of this name, and reading it there raises.
  \<^verbatim>\<open>hasattr(item, 'value')\<close> is whether the read succeeds.
\<close>

fun getattr_value :: "filter_value \<Rightarrow> py_error + string" where
  "getattr_value (EnumMember e) = Inr (enum_value e)"
| "getattr_value (RawString s) = Inl AttributeError"
| "getattr_value (IntLike i) = Inl AttributeError"

definition hasattr_value :: "filter_value \<Rightarrow> bool" where
  "hasattr_value item = (\<not> isl (getattr_value item))"

text \<open>
  \<^verbatim>\<open>str(item)\<close>. On a member of a \<^verbatim>\<open>(str, Enum)\<close> class it is the qualified
  member name (\<^verbatim>\<open>Enum.__str__\<close>), not the value. On an integer it can raise.
\<close>

fun py_str :: "filter_value \<Rightarrow> py_error + string" where
  "py_str (RawString s) = Inr s"
| "py_str (IntLike i) = str_int i"
| "py_str (EnumMember e) = Inr (enum_qualname e)"

text \<open>
  \<^verbatim>\<open>
  def convert_single_enum_or_string(item):
      if hasattr(item, 'value'):
          return item.value
      else:
          return str(item)
  \<close>
\<close>

definition convert_single_enum_or_string :: "filter_value \<Rightarrow> py_error + string" where
  "convert_single_enum_or_string item =
     (if hasattr_value item then getattr_value item else py_str item)"



text \<open>\<^verbatim>\<open>sep.join(parts)\<close> on a list of strings.\<close>

fun str_join :: "string \<Rightarrow> string list \<Rightarrow> string" where
  "str_join sep [] = []"
| "str_join sep [x] = x"
| "str_join sep (x # y # ys) = x @ sep @ str_join sep (y # ys)"


section \<open>Dynamically typed values\<close>

text \<open>
  The values of a decoded JSON body: \<^verbatim>\<open>None\<close>, booleans, integers, strings, lists
  and dictionaries with string keys (as an association list, looked up with \<open>map_of\<close>).
  The classifier only reads them, so they are plain values here. Floating-point numbers
  are left out.
\<close>

datatype pyval =
  PNone
| PBool bool
| PInt int
| PStr string
| PList "pyval list"
| PDict "(string \<times> pyval) list"

text \<open>Truth value testing, as \<^verbatim>\<open>if x:\<close> and \<^verbatim>\<open>x or y\<close> do it.\<close>

fun py_truthy :: "pyval \<Rightarrow> bool" where
  "py_truthy PNone = False"
| "py_truthy (PBool b) = b"
| "py_truthy (PInt i) = (i \<noteq> 0)"
| "py_truthy (PStr s) = (s \<noteq> [])"
| "py_truthy (PList xs) = (xs \<noteq> [])"
| "py_truthy (PDict kvs) = (kvs \<noteq> [])"

text \<open>\<^verbatim>\<open>x or y\<close>\<close>

definition py_or :: "pyval \<Rightarrow> pyval \<Rightarrow> pyval" where
  "py_or x y = (if py_truthy x then x else y)"

text \<open>
  \<^verbatim>\<open>obj.get(key, default)\<close>. Only a dictionary has the method; on \<^verbatim>\<open>None\<close>, a
  list, a string, a number, the attribute lookup itself raises \<^verbatim>\<open>AttributeError\<close>.
\<close>

fun py_get :: "pyval \<Rightarrow> string \<Rightarrow> pyval \<Rightarrow> py_error + pyval" where
  "py_get (PDict kvs) k dflt = Inr (case map_of kvs k of Some v \<Rightarrow> v | None \<Rightarrow> dflt)"
| "py_get PNone k dflt = Inl AttributeError"
| "py_get (PBool b) k dflt = Inl AttributeError"
| "py_get (PInt i) k dflt = Inl AttributeError"
| "py_get (PStr s) k dflt = Inl AttributeError"
| "py_get (PList xs) k dflt = Inl AttributeError"

section \<open>The exception hierarchy: \<^verbatim>\<open>core/exceptions.py\<close>\<close>

text \<open>
  \<^verbatim>\<open>WordPressError\<close> and its seven subclasses. The subclasses add nothing
  (\<^verbatim>\<open>pass\<close>), so an exception object is its class together with the attributes
  that \<^verbatim>\<open>WordPressError.__init__\<close> sets (the attribute \<^verbatim>\<open>method\<close> is the field
  \<open>http_method\<close>).
\<close>

datatype error_class =
  WordPressError
| AuthenticationError
| PermissionError
| NotFoundError
| ValidationError
| RateLimitError
| ServerError
| NetworkError

text \<open>
  Python does not check the annotations of \<^verbatim>\<open>__init__\<close>, and
  \<open>create_exception_from_response\<close> passes on whatever the body holds under
  \<^verbatim>\<open>message\<close> and \<^verbatim>\<open>code\<close>; the types of these two attributes are therefore
  parameters of the record. At the annotated types they are \<open>string\<close> and
  \<open>string option\<close>.
\<close>

record ('m, 'c) wp_exception =
  cls :: error_class
  message :: 'm
  code :: 'c
  status_code :: "int option"
  data :: pyval
  endpoint :: "string option"
  http_method :: "string option"

text \<open>
  \<^verbatim>\<open>
  def __init__(self, message, code=None, status_code=None, data=None,
               endpoint=None, method=None):
      super().__init__(message)
      self.message = message
      self.code = code
      self.status_code = status_code
      self.data = data or {}
      self.endpoint = endpoint
      self.method = method
  \<close>
\<close>

definition wp_exception_init ::
  "error_class \<Rightarrow> 'm \<Rightarrow> 'c \<Rightarrow> int option \<Rightarrow> pyval \<Rightarrow> string option \<Rightarrow> string option
     \<Rightarrow> ('m, 'c) wp_exception" where
  "wp_exception_init k msg c sc d ep me =
     \<lparr>cls = k, message = msg, code = c, status_code = sc, data = py_or d (PDict []),
      endpoint = ep, http_method = me\<rparr>"

text \<open>
  \<^verbatim>\<open>
  def __str__(self):
      parts = []
      if self.code:
          parts.append(f"[{self.code}]")
      if self.status_code:
          parts.append(f"HTTP {self.status_code}")
      if self.method and self.endpoint:
          parts.append(f"{self.method} {self.endpoint}")
      parts.append(self.message)
      return " ".join(parts)
  \<close>
  at the annotated types. Each \<^verbatim>\<open>if\<close> is a truth value test: \<^verbatim>\<open>None\<close>, the empty
  string and the integer 0 all fail it. The only step that can raise is the formatting of
  the status, so the method raises exactly when that does.
\<close>

definition code_part :: "string option \<Rightarrow> string list" where
  "code_part c = (case c of None \<Rightarrow> [] | Some s \<Rightarrow> if s \<noteq> [] then [''['' @ s @ '']''] else [])"

definition status_part :: "int option \<Rightarrow> py_error + string list" where
  "status_part sc =
     (case sc of
        None \<Rightarrow> Inr []
      | Some n \<Rightarrow>
          if n \<noteq> 0
          then (case str_int n of Inl err \<Rightarrow> Inl err | Inr d \<Rightarrow> Inr [''HTTP '' @ d])
          else Inr [])"

definition request_part :: "string option \<Rightarrow> string option \<Rightarrow> string list" where
  "request_part me ep =
     (case me of None \<Rightarrow> []
      | Some m \<Rightarrow> if m = [] then []
          else (case ep of None \<Rightarrow> []
                | Some e \<Rightarrow> if e \<noteq> [] then [m @ '' '' @ e] else []))"

definition WordPressError_str :: "(string, string option) wp_exception \<Rightarrow> py_error + string" where
  "WordPressError_str self =
     (case status_part (status_code self) of
        Inl err \<Rightarrow> Inl err
      | Inr sp \<Rightarrow>
          Inr (str_join '' ''
                 (code_part (code self) @ sp
                  @ request_part (http_method self) (endpoint self) @ [message self])))"

text \<open>
  The default message of the classifier is the literal \<^verbatim>\<open>'\u672a\u77e5\u9519\u8bef'\<close>
  ("unknown error"), four characters of three UTF-8 bytes each.
\<close>

definition unknown_error :: string where
  "unknown_error =
     [CHR 0xE6, CHR 0x9C, CHR 0xAA, CHR 0xE7, CHR 0x9F, CHR 0xA5,
      CHR 0xE9, CHR 0x94, CHR 0x99, CHR 0xE8, CHR 0xAF, CHR 0xAF]"

text \<open>
  \<^verbatim>\<open>
  def create_exception_from_response(status_code, response_data):
      message = response_data.get('message', <unknown error>)
      code = response_data.get('code', None)
      data = response_data.get('data', {})
      if status_code == 401:
          return AuthenticationError(message, code, status_code, data)
      elif status_code == 403:
          return PermissionError(message, code, status_code, data)
      elif status_code == 404:
          return NotFoundError(message, code, status_code, data)
      elif status_code == 400:
          return ValidationError(message, code, status_code, data)
      elif status_code == 429:
          return RateLimitError(message, code, status_code, data)
      elif status_code >= 500:
          return ServerError(message, code, status_code, data)
      else:
          return WordPressError(message, code, status_code, data)
  \<close>
  The three reads come first, so a body without the method \<^verbatim>\<open>get\<close> raises before any
  exception object is made. The parameter \<^verbatim>\<open>status_code\<close> is written \<open>status\<close>
  (the name is a field of the record).
\<close>

definition create_exception_from_response ::
  "int \<Rightarrow> pyval \<Rightarrow> py_error + (pyval, pyval) wp_exception" where
  "create_exception_from_response status response_data =
     (case py_get response_data ''message'' (PStr unknown_error) of
        Inl err \<Rightarrow> Inl err
      | Inr msg \<Rightarrow>
     (case py_get response_data ''code'' PNone of
        Inl err \<Rightarrow> Inl err
      | Inr c \<Rightarrow>
     (case py_get response_data ''data'' (PDict []) of
        Inl err \<Rightarrow> Inl err
      | Inr d \<Rightarrow>
          Inr (if status = 401
               then wp_exception_init AuthenticationError msg c (Some status) d None None
               else if status = 403
               then wp_exception_init PermissionError msg c (Some status) d None None
               else if status = 404
               then wp_exception_init NotFoundError msg c (Some status) d None None
               else if status = 400
               then wp_exception_init ValidationError msg c (Some status) d None None
               else if status = 429
               then wp_exception_init RateLimitError msg c (Some status) d None None
               else if status \<ge> 500
               then wp_exception_init ServerError msg c (Some status) d None None
               else wp_exception_init WordPressError msg c (Some status) d None None))))"

section \<open>The query builder: \<^verbatim>\<open>utils/query.py\<close>\<close>

text \<open>
  A \<^verbatim>\<open>QueryBuilder\<close> holds one attribute, \<^verbatim>\<open>_params\<close>, a reference to a
  dictionary that its methods update in place; \<^verbatim>\<open>build\<close> hands out a copy, a second
  dictionary object. A list stored under a key is an object too, and the dictionary holds
  a reference to it. Which object a reference points to matters here, so dictionaries and
  lists live in a store: \<open>dicts\<close> and \<open>lists\<close> give the contents at each address and
  \<open>lim\<close> is the next free address (every object in use lies below it).

  The values that the setters below put into the dictionary are integers, strings and
  lists of integers. The type of a value has the representation of a list as its
  parameter: in a dictionary of the store it is the address of the list object, and
  \<open>map_param_value (lists h)\<close> puts the list's contents in its place, which is the value
  as \<^verbatim>\<open>==\<close> compares it. A key maps to \<open>None\<close> when the dictionary does not hold it.
\<close>

type_synonym addr = nat

datatype 'l param_value = VInt int | VStr string | VList 'l

type_synonym dict = "string \<rightharpoonup> addr param_value"

record store =
  dicts :: "addr \<Rightarrow> dict"
  lists :: "addr \<Rightarrow> int list"
  lim :: addr

record QueryBuilder =
  params_ref :: addr

text \<open>Allocation of a dictionary object and of a list object with the given contents.\<close>

definition new_dict :: "dict \<Rightarrow> store \<Rightarrow> addr \<times> store" where
  "new_dict d h = (lim h, h\<lparr>dicts := (dicts h)(lim h := d), lim := Suc (lim h)\<rparr>)"

definition new_list :: "int list \<Rightarrow> store \<Rightarrow> addr \<times> store" where
  "new_list xs h = (lim h, h\<lparr>lists := (lists h)(lim h := xs), lim := Suc (lim h)\<rparr>)"

text \<open>\<^verbatim>\<open>d[k] = v\<close> on the dictionary at address \<open>a\<close>.\<close>

definition setitem :: "addr \<Rightarrow> string \<Rightarrow> addr param_value \<Rightarrow> store \<Rightarrow> store" where
  "setitem a k v h = h\<lparr>dicts := (dicts h)(a := (dicts h a)(k \<mapsto> v))\<rparr>"

text \<open>
  \<^verbatim>\<open>
  def __init__(self):
      self._params = {}
  \<close>
\<close>

definition QueryBuilder_init :: "store \<Rightarrow> QueryBuilder \<times> store" where
  "QueryBuilder_init h = (case new_dict Map.empty h of (a, h') \<Rightarrow> (\<lparr>params_ref = a\<rparr>, h'))"

text \<open>
  Every setter ends in \<^verbatim>\<open>return self\<close>: the result of a call that does not raise is
  the builder it was called on together with the store after the call.

  \<^verbatim>\<open>
  def page(self, page_num):
      if page_num < 1:
          raise ValueError(...)
      self._params["page"] = page_num
      return self
  \<close>
\<close>

definition page :: "int \<Rightarrow> QueryBuilder \<Rightarrow> store \<Rightarrow> py_error + QueryBuilder \<times> store" where
  "page page_num self h =
     (if page_num < 1 then Inl ValueError
      else Inr (self, setitem (params_ref self) ''page'' (VInt page_num) h))"

text \<open>
  \<^verbatim>\<open>
  def per_page(self, count):
      if count < 1 or count > 100:
          raise ValueError(...)
      self._params["per_page"] = count
      return self
  \<close>
\<close>

definition per_page :: "int \<Rightarrow> QueryBuilder \<Rightarrow> store \<Rightarrow> py_error + QueryBuilder \<times> store" where
  "per_page count self h =
     (if count < 1 \<or> count > 100 then Inl ValueError
      else Inr (self, setitem (params_ref self) ''per_page'' (VInt count) h))"

text \<open>
  \<^verbatim>\<open>
  def order_by(self, field, direction="desc"):
      if direction not in ["asc", "desc"]:
          raise ValueError(...)
      self._params["orderby"] = field
      self._params["order"] = direction
      return self
  \<close>
\<close>

definition order_by ::
  "string \<Rightarrow> string \<Rightarrow> QueryBuilder \<Rightarrow> store \<Rightarrow> py_error + QueryBuilder \<times> store" where
  "order_by field direction self h =
     (if direction \<notin> set [''asc'', ''desc''] then Inl ValueError
      else Inr (self,
             setitem (params_ref self) ''order'' (VStr direction)
               (setitem (params_ref self) ''orderby'' (VStr field) h)))"

text \<open>
  \<^verbatim>\<open>
  def offset(self, offset_count):
      if offset_count >= 0:
          self._params["offset"] = offset_count
      return self
  \<close>
\<close>

definition offset :: "int \<Rightarrow> QueryBuilder \<Rightarrow> store \<Rightarrow> py_error + QueryBuilder \<times> store" where
  "offset offset_count self h =
     (if offset_count \<ge> 0
      then Inr (self, setitem (params_ref self) ''offset'' (VInt offset_count) h)
      else Inr (self, h))"

text \<open>
  \<^verbatim>\<open>
  def context(self, ctx):
      if ctx in ["view", "embed", "edit"]:
          self._params["context"] = ctx
      return self
  \<close>
  (\<open>context\<close> is a keyword of the theory language; the method is \<open>context_setter\<close>
  here.)
\<close>

definition context_setter :: "string \<Rightarrow> QueryBuilder \<Rightarrow> store \<Rightarrow> py_error + QueryBuilder \<times> store" where
  "context_setter ctx self h =
     (if ctx \<in> set [''view'', ''embed'', ''edit'']
      then Inr (self, setitem (params_ref self) ''context'' (VStr ctx) h)
      else Inr (self, h))"

text \<open>
  The argument of the setters annotated \<^verbatim>\<open>Union[int, List[int]]\<close>: an integer, or a
  reference to the caller's list.
\<close>

datatype ids_arg = OneId int | IdList addr

text \<open>
  \<^verbatim>\<open>
  def categories(self, category_ids):
      if isinstance(category_ids, int):
          category_ids = [category_ids]
      if category_ids:
          self._params["categories"] = category_ids
      return self
  \<close>
  The first statement is \<open>promote\<close>: on an integer it makes a new list object with that
  one element, and a list it leaves alone. The second tests the list for emptiness and
  stores the reference; the list the caller passed is not copied.

  The bodies of \<^verbatim>\<open>author\<close>, \<^verbatim>\<open>author_exclude\<close>, \<^verbatim>\<open>categories\<close>,
  \<^verbatim>\<open>categories_exclude\<close>, \<^verbatim>\<open>tags\<close>, \<^verbatim>\<open>tags_exclude\<close>, \<^verbatim>\<open>parent\<close> and
  \<^verbatim>\<open>parent_exclude\<close> are this one with another key; \<open>put_ids\<close> is the body with the
  key as a parameter.
\<close>

definition promote :: "ids_arg \<Rightarrow> store \<Rightarrow> addr \<times> store" where
  "promote arg h = (case arg of OneId n \<Rightarrow> new_list [n] h | IdList a \<Rightarrow> (a, h))"

definition put_ids ::
  "string \<Rightarrow> ids_arg \<Rightarrow> QueryBuilder \<Rightarrow> store \<Rightarrow> py_error + QueryBuilder \<times> store" where
  "put_ids key arg self h =
     (case promote arg h of (a, h1) \<Rightarrow>
        if lists h1 a \<noteq> []
        then Inr (self, setitem (params_ref self) key (VList a) h1)
        else Inr (self, h1))"

definition author :: "ids_arg \<Rightarrow> QueryBuilder \<Rightarrow> store \<Rightarrow> py_error + QueryBuilder \<times> store" where
  "author author_ids = put_ids ''author'' author_ids"

definition author_exclude ::
  "ids_arg \<Rightarrow> QueryBuilder \<Rightarrow> store \<Rightarrow> py_error + QueryBuilder \<times> store" where
  "author_exclude author_ids = put_ids ''author_exclude'' author_ids"

definition categories ::
  "ids_arg \<Rightarrow> QueryBuilder \<Rightarrow> store \<Rightarrow> py_error + QueryBuilder \<times> store" where
  "categories category_ids = put_ids ''categories'' category_ids"

definition categories_exclude ::
  "ids_arg \<Rightarrow> QueryBuilder \<Rightarrow> store \<Rightarrow> py_error + QueryBuilder \<times> store" where
  "categories_exclude category_ids = put_ids ''categories_exclude'' category_ids"

definition tags :: "ids_arg \<Rightarrow> QueryBuilder \<Rightarrow> store \<Rightarrow> py_error + QueryBuilder \<times> store" where
  "tags tag_ids = put_ids ''tags'' tag_ids"

definition tags_exclude ::
  "ids_arg \<Rightarrow> QueryBuilder \<Rightarrow> store \<Rightarrow> py_error + QueryBuilder \<times> store" where
  "tags_exclude tag_ids = put_ids ''tags_exclude'' tag_ids"

definition parent :: "ids_arg \<Rightarrow> QueryBuilder \<Rightarrow> store \<Rightarrow> py_error + QueryBuilder \<times> store" where
  "parent parent_ids = put_ids ''parent'' parent_ids"

definition parent_exclude ::
  "ids_arg \<Rightarrow> QueryBuilder \<Rightarrow> store \<Rightarrow> py_error + QueryBuilder \<times> store" where
  "parent_exclude parent_ids = put_ids ''parent_exclude'' parent_ids"

text \<open>
  \<^verbatim>\<open>
  def build(self):
      return self._params.copy()
  \<close>
  \<^verbatim>\<open>dict.copy\<close> makes a new dictionary object with the same keys and values; the result
  is the address of the copy. The copy is shallow: a value that is a reference to a list
  is the same reference in the copy.
\<close>

definition build :: "QueryBuilder \<Rightarrow> store \<Rightarrow> addr \<times> store" where
  "build self h = new_dict (dicts h (params_ref self)) h"

text \<open>
  What a caller can do to a dictionary it holds: assign a key, delete a key (which raises
  \<^verbatim>\<open>KeyError\<close> and changes nothing when the key is absent), clear it, or merge another
  mapping into it (\<^verbatim>\<open>d.update(other)\<close>).
\<close>

datatype dict_op =
  SetItem string "addr param_value"
| DelItem string
| Clear
| Update "(string \<times> addr param_value) list"

fun dict_apply :: "dict_op \<Rightarrow> addr \<Rightarrow> store \<Rightarrow> py_error + store" where
  "dict_apply (SetItem k v) a h = Inr (setitem a k v h)"
| "dict_apply (DelItem k) a h =
     (if dicts h a k = None then Inl KeyError
      else Inr (h\<lparr>dicts := (dicts h)(a := (dicts h a)(k := None))\<rparr>))"
| "dict_apply Clear a h = Inr (h\<lparr>dicts := (dicts h)(a := Map.empty)\<rparr>)"
| "dict_apply (Update kvs) a h =
     Inr (h\<lparr>dicts := (dicts h)(a := (dicts h a) ++ map_of (rev kvs))\<rparr>)"

text \<open>The store after an operation, whether it raised or not.\<close>

definition store_after :: "dict_op \<Rightarrow> addr \<Rightarrow> store \<Rightarrow> store" where
  "store_after opn a h = (case dict_apply opn a h of Inl err \<Rightarrow> h | Inr h' \<Rightarrow> h')"

text \<open>\<^verbatim>\<open>xs.append(x)\<close> on the list at address \<open>a\<close>.\<close>

definition list_append :: "addr \<Rightarrow> int \<Rightarrow> store \<Rightarrow> store" where
  "list_append a x h = h\<lparr>lists := (lists h)(a := lists h a @ [x])\<rparr>"

text \<open>
  \<^verbatim>\<open>d[k].append(x)\<close> on the dictionary at address \<open>r\<close>: the subscript raises
  \<^verbatim>\<open>KeyError\<close> when the key is absent, and an integer or a string has no method
  \<^verbatim>\<open>append\<close>.
\<close>

definition getitem_append :: "addr \<Rightarrow> string \<Rightarrow> int \<Rightarrow> store \<Rightarrow> py_error + store" where
  "getitem_append r k x h =
     (case dicts h r k of
        None \<Rightarrow> Inl KeyError
      | Some (VInt n) \<Rightarrow> Inl AttributeError
      | Some (VStr s) \<Rightarrow> Inl AttributeError
      | Some (VList a) \<Rightarrow> Inr (list_append a x h))"

text \<open>
  The current contents of \<^verbatim>\<open>self._params\<close>, and a dictionary of the store as a caller
  reads it, each list reference followed.
\<close>

definition params_of :: "QueryBuilder \<Rightarrow> store \<Rightarrow> dict" where
  "params_of self h = dicts h (params_ref self)"

definition read_dict :: "store \<Rightarrow> addr \<Rightarrow> string \<rightharpoonup> int list param_value" where
  "read_dict h a = (\<lambda>k. map_option (map_param_value (lists h)) (dicts h a k))"

text \<open>
  A caller's chain \<^verbatim>\<open>QueryBuilder().f(x).g(y).build()\<close>: it starts from a new builder
  in a store without objects, each call goes on from the builder the call before
  returned, and an exception ends it. \<open>built\<close> is the last link: the dictionary that
  \<^verbatim>\<open>build\<close> returns, as the caller reads it. \<open>with_list xs f\<close> is the call
  \<^verbatim>\<open>f([...])\<close> with a list display as the argument: the display makes the list object
  and the call receives the reference.
\<close>

definition empty_store :: store where
  "empty_store = \<lparr>dicts = (\<lambda>a. Map.empty), lists = (\<lambda>a. []), lim = 0\<rparr>"

definition new_builder :: "py_error + QueryBuilder \<times> store" where
  "new_builder = Inr (QueryBuilder_init empty_store)"

definition and_then ::
  "py_error + QueryBuilder \<times> store \<Rightarrow> (QueryBuilder \<Rightarrow> store \<Rightarrow> py_error + 'a) \<Rightarrow> py_error + 'a"
  where
  "and_then r f = (case r of Inl err \<Rightarrow> Inl err | Inr (self, h) \<Rightarrow> f self h)"

definition with_list ::
  "int list \<Rightarrow> (ids_arg \<Rightarrow> QueryBuilder \<Rightarrow> store \<Rightarrow> py_error + 'a)
     \<Rightarrow> QueryBuilder \<Rightarrow> store \<Rightarrow> py_error + 'a" where
  "with_list xs f self h = (case new_list xs h of (a, h') \<Rightarrow> f (IdList a) self h')"

definition built :: "QueryBuilder \<Rightarrow> store \<Rightarrow> py_error + (string \<rightharpoonup> int list param_value)" where
  "built self h = (case build self h of (r, h') \<Rightarrow> Inr (read_dict h' r))"

text \<open>
  \<open>n\<close> calls of \<^verbatim>\<open>build\<close> in a row on the same builder, as a caller makes them: the
  addresses returned, first call first, and the store after the last call.
\<close>

fun build_times :: "nat \<Rightarrow> QueryBuilder \<Rightarrow> store \<Rightarrow> addr list \<times> store" where
  "build_times 0 self h = ([], h)"
| "build_times (Suc n) self h =
     (case build self h of (r, h') \<Rightarrow>
        (case build_times n self h' of (rs, h'') \<Rightarrow> (r # rs, h'')))"

text \<open>The builder that \<^verbatim>\<open>QueryBuilder()\<close> makes in the store without objects.\<close>

definition fresh_builder :: QueryBuilder where
  "fresh_builder = fst (QueryBuilder_init empty_store)"

definition fresh_store :: store where
  "fresh_store = snd (QueryBuilder_init empty_store)"

text \<open>
  The store after \<^verbatim>\<open>page(2)\<close> and \<^verbatim>\<open>categories(7)\<close> on a new builder: the
  builder's dictionary is the object at address 0 and the list \<open>[7]\<close> the object at
  address 1. \<open>two_copies_h1\<close> and \<open>two_copies_h2\<close> are the stores after one and after
  two calls of \<^verbatim>\<open>build\<close> from there. \<open>with_empty_list\<close> is the store of a new builder
  and an empty list, the object at address 1.
\<close>

definition page_and_categories :: store where
  "page_and_categories =
     setitem 0 ''categories'' (VList 1)
       (snd (new_list [7] (setitem 0 ''page'' (VInt 2) fresh_store)))"

definition with_empty_list :: store where
  "with_empty_list = snd (new_list [] fresh_store)"

definition two_copies_h1 :: store where
  "two_copies_h1 = snd (build fresh_builder page_and_categories)"

definition two_copies_h2 :: store where
  "two_copies_h2 = snd (build fresh_builder two_copies_h1)"


section \<open>Properties of FilterValue resolution\<close>

lemma digit_char_cases:
  "d < 10 \<Longrightarrow> digit_value (digit_char d) = d \<and> digit_char d \<in> set ''0123456789''"
proof -
  assume "d < 10"
  then have "d \<in> {0, 1, 2, 3, 4, 5, 6, 7, 8, 9}" by auto
  then show ?thesis
    by (auto simp add: digit_value_def digit_char_def)
qed

lemma parse_nat_str_nat: "parse_nat (str_nat n) = n"
proof (induction n rule: str_nat.induct)
  case (1 n)
  show ?case
  proof (cases "n < 10")
    case True
    then show ?thesis
      by (subst str_nat.simps) (simp add: parse_nat_def digit_char_cases)
  next
    case False
    then have ih: "parse_nat (str_nat (n div 10)) = n div 10" using 1 by simp
    have "parse_nat (str_nat n)
        = 10 * parse_nat (str_nat (n div 10)) + digit_value (digit_char (n mod 10))"
      using False by (subst str_nat.simps) (simp add: parse_nat_def)
    then show ?thesis using ih by (simp add: digit_char_cases)
  qed
qed

lemma str_nat_digits: "str_nat n \<noteq> [] \<and> set (str_nat n) \<subseteq> set ''0123456789''"
proof (induction n rule: str_nat.induct)
  case (1 n)
  show ?case
  proof (cases "n < 10")
    case True
    then show ?thesis
      using digit_char_cases [of n] by (subst (1 2) str_nat.simps) simp
  next
    case False
    then show ?thesis
      using 1 digit_char_cases [of "n mod 10"] by (subst (1 2) str_nat.simps) simp
  qed
qed

lemma parse_int_decimal: "parse_int (decimal i) = i"
proof (cases "i < 0")
  case True
  then show ?thesis
    by (simp add: decimal_def parse_int_def parse_nat_str_nat)
next
  case False
  obtain c cs where s: "str_nat (nat i) = c # cs"
    using str_nat_digits [of "nat i"] by (cases "str_nat (nat i)") auto
  have "c \<in> set ''0123456789''"
    using str_nat_digits [of "nat i"] s by auto
  then have "c \<noteq> CHR ''-''" by auto
  then have "parse_int (c # cs) = int (parse_nat (c # cs))"
    by (simp add: parse_int_def)
  then show ?thesis
    using False s parse_nat_str_nat [of "nat i"] by (simp add: decimal_def)
qed

text \<open>
  The number of digits and the size of the number: a numeral has more than \<open>k\<close> digits
  exactly when the absolute value is at least the \<open>k\<close>-th power of ten. Proofs about the
  power \<open>10 ^ 4300\<close> go by these lemmas and never compute it.
\<close>

lemma str_nat_length_lower: "10 ^ k \<le> n \<Longrightarrow> k < length (str_nat n)"
proof (induction k arbitrary: n)
  case 0
  then show ?case using str_nat_digits [of n] by (cases "str_nat n") simp_all
next
  case (Suc k)
  have "(10::nat) ^ Suc k \<ge> 10" by simp
  then have n10: "\<not> n < 10" using Suc.prems by linarith
  have "10 ^ k \<le> n div 10"
    using Suc.prems by (simp add: less_eq_div_iff_mult_less_eq mult.commute)
  then have "k < length (str_nat (n div 10))" by (rule Suc.IH)
  then show ?case using n10 by (subst str_nat.simps) simp
qed

lemma str_nat_length_upper: "n < 10 ^ Suc k \<Longrightarrow> length (str_nat n) \<le> Suc k"
proof (induction k arbitrary: n)
  case 0
  then show ?case by (subst str_nat.simps) simp
next
  case (Suc k)
  show ?case
  proof (cases "n < 10")
    case True
    then show ?thesis by (subst str_nat.simps) simp
  next
    case False
    have "n div 10 < 10 ^ Suc k"
      using Suc.prems by (simp add: div_less_iff_less_mult mult.commute)
    then have "length (str_nat (n div 10)) \<le> Suc k" by (rule Suc.IH)
    then show ?thesis using False by (subst str_nat.simps) simp
  qed
qed

lemma num_digits_le: "0 < k \<Longrightarrow> (num_digits i \<le> k \<longleftrightarrow> \<bar>i\<bar> < 10 ^ k)"
proof -
  assume k: "0 < k"
  then obtain j where j: "k = Suc j" by (cases k) auto
  have eq: "\<bar>i\<bar> < 10 ^ k \<longleftrightarrow> nat \<bar>i\<bar> < 10 ^ k"
    by (simp add: nat_less_iff)
  show ?thesis
  proof
    assume "num_digits i \<le> k"
    then have "\<not> k < length (str_nat (nat \<bar>i\<bar>))" by (simp add: num_digits_def)
    then have "\<not> 10 ^ k \<le> nat \<bar>i\<bar>" using str_nat_length_lower by blast
    then show "\<bar>i\<bar> < 10 ^ k" using eq by simp
  next
    assume "\<bar>i\<bar> < 10 ^ k"
    then have "nat \<bar>i\<bar> < 10 ^ Suc j" using eq j by simp
    then show "num_digits i \<le> k"
      using str_nat_length_upper j by (simp add: num_digits_def)
  qed
qed

lemma num_digits_large: "10 ^ int_max_str_digits \<le> \<bar>i\<bar> \<Longrightarrow> 4300 < num_digits i"
proof -
  assume "10 ^ int_max_str_digits \<le> \<bar>i\<bar>"
  then have "\<not> \<bar>i\<bar> < 10 ^ int_max_str_digits" by simp
  moreover have "0 < int_max_str_digits" by (simp add: int_max_str_digits_def)
  ultimately have "\<not> num_digits i \<le> int_max_str_digits"
    using num_digits_le by blast
  then show ?thesis by (simp add: int_max_str_digits_def)
qed

lemma num_digits_power: "4300 < num_digits (10 ^ 4300)"
proof -
  have "(10::int) ^ int_max_str_digits \<le> \<bar>10 ^ 4300\<bar>"
    unfolding int_max_str_digits_def by (rule abs_ge_self)
  then show ?thesis by (rule num_digits_large)
qed

lemma num_digits_minus_power: "4300 < num_digits (- (10 ^ 4300))"
proof -
  have "(10::int) ^ int_max_str_digits \<le> \<bar>10 ^ 4300\<bar>"
    unfolding int_max_str_digits_def by (rule abs_ge_self)
  moreover have "\<bar>(10::int) ^ 4300\<bar> = \<bar>- (10 ^ 4300)\<bar>"
    by (rule abs_minus_cancel [symmetric])
  ultimately have "(10::int) ^ int_max_str_digits \<le> \<bar>- (10 ^ 4300)\<bar>"
    by (rule ord_le_eq_trans)
  then show ?thesis by (rule num_digits_large)
qed

lemma str_int_cases:
  "num_digits i \<le> 4300 \<Longrightarrow> str_int i = Inr (decimal i)"
  "4300 < num_digits i \<Longrightarrow> str_int i = Inl ValueError"
  by (simp_all add: str_int_def int_max_str_digits_def)

lemma num_digits_abs: "num_digits i = length (decimal \<bar>i\<bar>)"
  by (simp add: num_digits_def decimal_def)

lemma decimal_42: "decimal 42 = ''42''" "num_digits 42 \<le> 4300"
  by (simp_all add: decimal_def num_digits_def str_nat.simps digit_char_def)

lemma decimal_minus_7: "decimal (- 7) = ''-7''" "num_digits (- 7) \<le> 4300"
  by (simp_all add: decimal_def num_digits_def str_nat.simps digit_char_def)

lemma convert_single_cases:
  "convert_single_enum_or_string (RawString v) = Inr v"
  "convert_single_enum_or_string (EnumMember e) = Inr (enum_value e)"
  "convert_single_enum_or_string (IntLike i) = str_int i"
  by (simp_all add: convert_single_enum_or_string_def hasattr_value_def)




text \<open>
  Claim C3, as amended. \<open>convert_single_enum_or_string\<close> (the spec's resolveOne) returns
  a raw string as it is and an enumeration member's \<^verbatim>\<open>value\<close>. On an integer whose
  numeral has at most 4300 digits it returns \<^verbatim>\<open>str\<close> of it, the decimal numeral, from
  which the integer can be read back; on an integer with more digits \<^verbatim>\<open>str\<close> raises
  \<^verbatim>\<open>ValueError\<close>, and so does the function. These are the only inputs on which it
  raises. The last three conjuncts are instances: PostStatus.AUTO_DRAFT, 42 and -7.
\<close>

theorem resolveOne_identity_and_projection:
  "convert_single_enum_or_string (RawString v) = Inr v
   \<and> convert_single_enum_or_string (EnumMember e) = Inr (enum_value e)
   \<and> (num_digits i \<le> 4300 \<longrightarrow> convert_single_enum_or_string (IntLike i) = Inr (decimal i))
   \<and> (4300 < num_digits i \<longrightarrow> convert_single_enum_or_string (IntLike i) = Inl ValueError)
   \<and> num_digits i = length (decimal \<bar>i\<bar>) \<and> parse_int (decimal i) = i
   \<and> (isl (convert_single_enum_or_string item)
        \<longleftrightarrow> (\<exists>j. item = IntLike j \<and> 4300 < num_digits j))
   \<and> convert_single_enum_or_string (EnumMember (OfPostStatus AUTO_DRAFT)) = Inr ''auto-draft''
   \<and> convert_single_enum_or_string (IntLike 42) = Inr ''42''
   \<and> convert_single_enum_or_string (IntLike (- 7)) = Inr ''-7''"
proof -
  have raises: "isl (convert_single_enum_or_string item)
        \<longleftrightarrow> (\<exists>j. item = IntLike j \<and> 4300 < num_digits j)"
  proof (cases item)
    case (IntLike j)
    then show ?thesis
      by (cases "num_digits j \<le> 4300") (simp_all add: convert_single_cases str_int_cases)
  qed (simp_all add: convert_single_cases)
  show ?thesis
    using raises
    by (simp add: convert_single_cases str_int_cases decimal_42 decimal_minus_7
        parse_int_decimal num_digits_abs [symmetric])
qed

text \<open>
  The claim as written has the function return on every integer. The integer
  \<open>10 ^ 4300\<close> has no attribute \<^verbatim>\<open>value\<close>, its numeral has 4301 digits, and
  \<^verbatim>\<open>str\<close> of it raises.
\<close>

theorem resolveOne_huge_int_counterexample:
  "hasattr_value (IntLike (10 ^ 4300)) = False
   \<and> convert_single_enum_or_string (IntLike (10 ^ 4300)) = Inl ValueError"
proof -
  have h: "hasattr_value (IntLike i) = False" for i
    by (simp add: hasattr_value_def)
  have "str_int (10 ^ 4300) = Inl ValueError"
    using num_digits_power by (rule str_int_cases(2))
  with convert_single_cases(3) [of "10 ^ 4300"]
  have "convert_single_enum_or_string (IntLike (10 ^ 4300)) = Inl ValueError"
    by (rule trans)
  with h [of "10 ^ 4300"] show ?thesis by (rule conjI)
qed

text \<open>
  The integers 42 and \<open>- (10 ^ 4300)\<close>: the first has two digits and is returned as its
  numeral, the second has 4301 and raises.
\<close>

theorem resolveOne_identity_and_projection_witness:
  "num_digits 42 \<le> 4300 \<and> convert_single_enum_or_string (IntLike 42) = Inr (decimal 42)
   \<and> 4300 < num_digits (- (10 ^ 4300))
   \<and> convert_single_enum_or_string (IntLike (- (10 ^ 4300))) = Inl ValueError"
proof -
  from resolveOne_identity_and_projection [of "''x''" "OfPostStatus DRAFT" 42 "RawString ''x''"]
  have "num_digits 42 \<le> 4300 \<longrightarrow> convert_single_enum_or_string (IntLike 42) = Inr (decimal 42)"
    by blast
  then have small: "convert_single_enum_or_string (IntLike 42) = Inr (decimal 42)"
    using decimal_42(2) by (rule mp)
  from resolveOne_identity_and_projection
    [of "''x''" "OfPostStatus DRAFT" "- (10 ^ 4300)" "RawString ''x''"]
  have "4300 < num_digits (- (10 ^ 4300))
      \<longrightarrow> convert_single_enum_or_string (IntLike (- (10 ^ 4300))) = Inl ValueError"
    by blast
  then have large: "convert_single_enum_or_string (IntLike (- (10 ^ 4300))) = Inl ValueError"
    using num_digits_minus_power by (rule mp)
  show ?thesis
    using decimal_42(2) small num_digits_minus_power large by blast
qed



section \<open>Properties of the error classifier\<close>

text \<open>
  Claim C1, as amended. On every integer status and every dictionary body,
  \<open>create_exception_from_response\<close> (the spec's classify) returns one exception object.
  Its class depends on the status alone, first match first: 401 AuthenticationError, 403
  PermissionError, 404 NotFoundError, 400 ValidationError, 429 RateLimitError, 500 and
  above ServerError, anything else the base class WordPressError (the spec's Generic);
  NetworkError never comes out, whatever the body. The object holds the body's \<^verbatim>\<open>message\<close> and
  \<^verbatim>\<open>code\<close> entries as they are (the defaults when the keys are absent) and the
  status. Its \<^verbatim>\<open>data\<close> is the body's entry only when that entry is truthy: the
  constructor stores \<^verbatim>\<open>data or {}\<close>, so \<^verbatim>\<open>None\<close>, an empty list, an empty
  string, 0 and \<^verbatim>\<open>False\<close> all become the empty dictionary.
\<close>

theorem classify_dispatch_on_status:
  "\<exists>e. create_exception_from_response status (PDict body) = Inr e
     \<and> (status = 401 \<longrightarrow> cls e = AuthenticationError)
     \<and> (status = 403 \<longrightarrow> cls e = PermissionError)
     \<and> (status = 404 \<longrightarrow> cls e = NotFoundError)
     \<and> (status = 400 \<longrightarrow> cls e = ValidationError)
     \<and> (status = 429 \<longrightarrow> cls e = RateLimitError)
     \<and> (status \<ge> 500 \<longrightarrow> cls e = ServerError)
     \<and> (status \<notin> {401, 403, 404, 400, 429} \<and> status < 500 \<longrightarrow> cls e = WordPressError)
     \<and> cls e \<noteq> NetworkError
     \<and> message e = (case map_of body ''message'' of Some v \<Rightarrow> v | None \<Rightarrow> PStr unknown_error)
     \<and> code e = (case map_of body ''code'' of Some v \<Rightarrow> v | None \<Rightarrow> PNone)
     \<and> status_code e = Some status
     \<and> data e = (case map_of body ''data'' of
                    Some v \<Rightarrow> if py_truthy v then v else PDict []
                  | None \<Rightarrow> PDict [])
     \<and> endpoint e = None \<and> http_method e = None
     \<and> (\<forall>other e'. create_exception_from_response status other = Inr e'
            \<longrightarrow> cls e' \<noteq> NetworkError)"
proof -
  have never: "cls e' \<noteq> NetworkError"
    if "create_exception_from_response status other = Inr e'" for other e'
    using that
    by (cases other)
       (auto simp add: create_exception_from_response_def wp_exception_init_def
        split: if_splits)
  show ?thesis
    using never
    by (simp add: create_exception_from_response_def wp_exception_init_def py_or_def
        split: option.splits)
qed

text \<open>
  The claim as written has the result carry the data extracted from the body. On the body
  \<^verbatim>\<open>{"message": "bad", "data": []}\<close> (an empty PHP array arrives as \<^verbatim>\<open>[]\<close>) the
  extracted data is the empty list and the result's data is the empty dictionary.
\<close>

theorem classify_data_counterexample:
  "py_get (PDict [(''message'', PStr ''bad''), (''data'', PList [])]) ''data'' (PDict [])
     = Inr (PList [])
   \<and> create_exception_from_response 400 (PDict [(''message'', PStr ''bad''), (''data'', PList [])])
     = Inr \<lparr>cls = ValidationError, message = PStr ''bad'', code = PNone,
            status_code = Some 400, data = PDict [], endpoint = None, http_method = None\<rparr>
   \<and> PDict [] \<noteq> PList []"
  by (simp add: create_exception_from_response_def wp_exception_init_def py_or_def)

text \<open>
  The seven rows of the table at inputs of the spec: 401, 403, 404 with an empty body,
  400 with all three fields, 429, 500 and 418.
\<close>

theorem classify_dispatch_on_status_witness:
  "(\<exists>e. create_exception_from_response 401 (PDict [(''message'', PStr ''x'')]) = Inr e
        \<and> cls e = AuthenticationError \<and> message e = PStr ''x'')
   \<and> (\<exists>e. create_exception_from_response 403 (PDict []) = Inr e \<and> cls e = PermissionError)
   \<and> (\<exists>e. create_exception_from_response 404 (PDict []) = Inr e \<and> cls e = NotFoundError)
   \<and> (\<exists>e. create_exception_from_response 400
             (PDict [(''message'', PStr ''bad field''), (''code'', PStr ''rest_invalid_param''),
                     (''data'', PDict [(''field'', PStr ''title'')])]) = Inr e
        \<and> cls e = ValidationError \<and> message e = PStr ''bad field''
        \<and> code e = PStr ''rest_invalid_param''
        \<and> data e = PDict [(''field'', PStr ''title'')])
   \<and> (\<exists>e. create_exception_from_response 429 (PDict [(''message'', PStr ''slow down'')]) = Inr e
        \<and> cls e = RateLimitError)
   \<and> (\<exists>e. create_exception_from_response 500 (PDict [(''message'', PStr ''boom'')]) = Inr e
        \<and> cls e = ServerError)
   \<and> (\<exists>e. create_exception_from_response 418 (PDict []) = Inr e \<and> cls e = WordPressError)"
  using classify_dispatch_on_status [of 401 "[(''message'', PStr ''x'')]"]
    classify_dispatch_on_status [of 403 "[]"]
    classify_dispatch_on_status [of 404 "[]"]
    classify_dispatch_on_status [of 400
      "[(''message'', PStr ''bad field''), (''code'', PStr ''rest_invalid_param''),
        (''data'', PDict [(''field'', PStr ''title'')])]"]
    classify_dispatch_on_status [of 429 "[(''message'', PStr ''slow down'')]"]
    classify_dispatch_on_status [of 500 "[(''message'', PStr ''boom'')]"]
    classify_dispatch_on_status [of 418 "[]"]
  by (elim exE conjE) simp

text \<open>
  Claim C2, as amended. On every integer status and every dictionary body the classifier
  returns an exception object and raises nothing; a body without the key
  \<^verbatim>\<open>message\<close> gives the default message, which is not empty, one without
  \<^verbatim>\<open>code\<close> gives \<^verbatim>\<open>None\<close>, one without \<^verbatim>\<open>data\<close> the empty dictionary. A body
  that is not a dictionary (\<^verbatim>\<open>None\<close>, a list, a string, a number) is outside the
  annotated parameter type \<^verbatim>\<open>Dict[str, Any]\<close>: the first read of the body raises
  \<^verbatim>\<open>AttributeError\<close>.
\<close>

theorem classify_total_on_mappings:
  "(\<exists>e. create_exception_from_response status (PDict body) = Inr e
        \<and> (map_of body ''message'' = None \<longrightarrow> message e = PStr unknown_error)
        \<and> (map_of body ''code'' = None \<longrightarrow> code e = PNone)
        \<and> (map_of body ''data'' = None \<longrightarrow> data e = PDict []))
   \<and> unknown_error \<noteq> []
   \<and> ((\<forall>kvs. other \<noteq> PDict kvs) \<longrightarrow>
         create_exception_from_response status other = Inl AttributeError)"
  by (cases other)
     (simp_all add: create_exception_from_response_def wp_exception_init_def py_or_def
      unknown_error_def)

text \<open>
  The claim as written has the classifier return on a null body; on \<^verbatim>\<open>None\<close> it
  raises.
\<close>

theorem classify_null_body_counterexample:
  "create_exception_from_response 500 PNone = Inl AttributeError"
  by (simp add: create_exception_from_response_def)

text \<open>The empty body at status 500, and a list in place of the body.\<close>

theorem classify_total_on_mappings_witness:
  "(\<exists>e. create_exception_from_response 500 (PDict []) = Inr e
        \<and> message e = PStr unknown_error \<and> code e = PNone \<and> data e = PDict [])
   \<and> create_exception_from_response 500 (PList []) = Inl AttributeError"
  using classify_total_on_mappings [of 500 "[]" "PList []"]
  by auto


section \<open>Properties of the string form of an exception\<close>

lemma str_join_snoc: "str_join sep (xs @ [m]) = concat (map (\<lambda>p. p @ sep) xs) @ m"
  by (induction sep xs rule: str_join.induct) auto

lemma status_part_cases:
  "status_part None = Inr []"
  "status_part (Some 0) = Inr []"
  "s \<noteq> 0 \<Longrightarrow> num_digits s \<le> 4300 \<Longrightarrow> status_part (Some s) = Inr [''HTTP '' @ decimal s]"
  "4300 < num_digits s \<Longrightarrow> status_part (Some s) = Inl ValueError"
proof -
  show "status_part None = Inr []" "status_part (Some 0) = Inr []"
    by (simp_all add: status_part_def)
  show "s \<noteq> 0 \<Longrightarrow> num_digits s \<le> 4300 \<Longrightarrow> status_part (Some s) = Inr [''HTTP '' @ decimal s]"
    by (simp add: status_part_def str_int_cases)
  have "num_digits 0 = 1"
    by (simp add: num_digits_def str_nat.simps)
  then show "4300 < num_digits s \<Longrightarrow> status_part (Some s) = Inl ValueError"
    by (cases "s = 0") (simp_all add: status_part_def str_int_cases)
qed

lemma WordPressError_str_form:
  "status_part (status_code e) = Inr sp \<Longrightarrow>
   WordPressError_str e =
     Inr (concat (map (\<lambda>p. p @ '' '')
            (code_part (code e) @ sp @ request_part (http_method e) (endpoint e)))
          @ message e)"
  unfolding WordPressError_str_def
  using str_join_snoc [of "'' ''" "code_part (code e) @ sp
        @ request_part (http_method e) (endpoint e)" "message e"]
  by simp

lemma decimal_403: "decimal 403 = ''403''" "num_digits 403 \<le> 4300"
  by (simp_all add: decimal_def num_digits_def str_nat.simps digit_char_def)

lemma decimal_0: "decimal 0 = ''0''"
  by (simp add: decimal_def str_nat.simps digit_char_def)

text \<open>
  Claim C9, as amended. Let the status be absent or have a numeral of at most 4300
  digits. Then the string form of an exception of any class is, in this order: the code
  in brackets and a space, when the code is present and not the empty string;
  \<^verbatim>\<open>HTTP\<close>, the decimal numeral of the status and a space, when the status is present
  and not 0; the request line (method, space, endpoint) and a space, when both are
  present and not empty; the message. Nothing else is in it. So with a truthy code \<open>c\<close>
  and a truthy status \<open>s\<close> the string is \<^verbatim>\<open>[c] HTTP s\<close>, the request line if there is
  one, and the message; with no truthy code, status or request line it is the message
  itself, and it is not empty when the message is not. A status with more than 4300
  digits makes the formatting, and with it the method, raise \<^verbatim>\<open>ValueError\<close>.
\<close>

theorem str_code_status_message_in_order:
  fixes e :: "(string, string option) wp_exception"
  shows
  "((status_code e = None \<or> (\<exists>n. status_code e = Some n \<and> num_digits n \<le> 4300)) \<longrightarrow>
      WordPressError_str e =
        Inr ((case code e of None \<Rightarrow> [] | Some k \<Rightarrow> if k \<noteq> [] then ''['' @ k @ ''] '' else [])
             @ (case status_code e of
                  None \<Rightarrow> []
                | Some n \<Rightarrow> if n \<noteq> 0 then ''HTTP '' @ decimal n @ '' '' else [])
             @ (case http_method e of
                  None \<Rightarrow> []
                | Some m \<Rightarrow>
                    (case endpoint e of
                       None \<Rightarrow> []
                     | Some p \<Rightarrow> if m \<noteq> [] \<and> p \<noteq> [] then m @ '' '' @ p @ '' '' else []))
             @ message e))
   \<and> (code e = Some c \<and> c \<noteq> [] \<and> status_code e = Some s \<and> s \<noteq> 0 \<and> num_digits s \<le> 4300
        \<and> http_method e = Some me \<and> me \<noteq> [] \<and> endpoint e = Some ep \<and> ep \<noteq> [] \<longrightarrow>
        WordPressError_str e
          = Inr (''['' @ c @ ''] HTTP '' @ decimal s @ '' '' @ me @ '' '' @ ep @ '' '' @ message e))
   \<and> (code e = Some c \<and> c \<noteq> [] \<and> status_code e = Some s \<and> s \<noteq> 0 \<and> num_digits s \<le> 4300
        \<and> (http_method e = None \<or> http_method e = Some []
             \<or> endpoint e = None \<or> endpoint e = Some []) \<longrightarrow>
        WordPressError_str e = Inr (''['' @ c @ ''] HTTP '' @ decimal s @ '' '' @ message e))
   \<and> ((code e = None \<or> code e = Some []) \<and> (status_code e = None \<or> status_code e = Some 0)
        \<and> (http_method e = None \<or> http_method e = Some []
             \<or> endpoint e = None \<or> endpoint e = Some [])
        \<longrightarrow> WordPressError_str e = Inr (message e))
   \<and> (message e \<noteq> [] \<longrightarrow> WordPressError_str e \<noteq> Inr [])
   \<and> (status_code e = Some s \<and> 4300 < num_digits s \<longrightarrow> WordPressError_str e = Inl ValueError)"
proof -
  let ?cp = "case code e of None \<Rightarrow> [] | Some k \<Rightarrow> if k \<noteq> [] then ''['' @ k @ ''] '' else []"
  let ?sp = "case status_code e of
               None \<Rightarrow> []
             | Some n \<Rightarrow> if n \<noteq> 0 then ''HTTP '' @ decimal n @ '' '' else []"
  let ?rp = "case http_method e of
               None \<Rightarrow> []
             | Some m \<Rightarrow>
                 (case endpoint e of
                    None \<Rightarrow> []
                  | Some p \<Rightarrow> if m \<noteq> [] \<and> p \<noteq> [] then m @ '' '' @ p @ '' '' else [])"
  have cp: "concat (map (\<lambda>p. p @ '' '') (code_part (code e))) = ?cp"
    by (simp add: code_part_def split: option.splits)
  have rp: "concat (map (\<lambda>p. p @ '' '') (request_part (http_method e) (endpoint e))) = ?rp"
    by (auto simp add: request_part_def split: option.splits)
  have form: "WordPressError_str e = Inr (?cp @ ?sp @ ?rp @ message e)"
    if ok: "status_code e = None \<or> (\<exists>n. status_code e = Some n \<and> num_digits n \<le> 4300)"
  proof -
    obtain sp where sp: "status_part (status_code e) = Inr sp"
      and spc: "concat (map (\<lambda>p. p @ '' '') sp) = ?sp"
    proof (cases "status_code e")
      case None
      then show ?thesis using that [of "[]"] by (simp add: status_part_cases)
    next
      case (Some n)
      then have n: "num_digits n \<le> 4300" using ok by simp
      show ?thesis
      proof (cases "n = 0")
        case True
        then show ?thesis using Some that [of "[]"] by (simp add: status_part_cases)
      next
        case False
        then show ?thesis
          using Some n that [of "[''HTTP '' @ decimal n]"] by (simp add: status_part_cases)
      qed
    qed
    show ?thesis
      using WordPressError_str_form [OF sp] cp rp spc by simp
  qed
  have full: "WordPressError_str e
          = Inr (''['' @ c @ ''] HTTP '' @ decimal s @ '' '' @ me @ '' '' @ ep @ '' '' @ message e)"
    if "code e = Some c" "c \<noteq> []" "status_code e = Some s" "s \<noteq> 0" "num_digits s \<le> 4300"
      "http_method e = Some me" "me \<noteq> []" "endpoint e = Some ep" "ep \<noteq> []"
    using form that by simp
  have noreq: "WordPressError_str e = Inr (''['' @ c @ ''] HTTP '' @ decimal s @ '' '' @ message e)"
    if "code e = Some c" "c \<noteq> []" "status_code e = Some s" "s \<noteq> 0" "num_digits s \<le> 4300"
      "http_method e = None \<or> http_method e = Some []
         \<or> endpoint e = None \<or> endpoint e = Some []"
    using form that by (auto split: option.splits)
  have only_message: "WordPressError_str e = Inr (message e)"
    if "code e = None \<or> code e = Some []" "status_code e = None \<or> status_code e = Some 0"
      "http_method e = None \<or> http_method e = Some []
         \<or> endpoint e = None \<or> endpoint e = Some []"
  proof -
    have "num_digits 0 \<le> 4300" by (simp add: num_digits_def str_nat.simps)
    then have "status_code e = None \<or> (\<exists>n. status_code e = Some n \<and> num_digits n \<le> 4300)"
      using that(2) by auto
    then show ?thesis
      using form that by (auto split: option.splits)
  qed
  have nonempty: "WordPressError_str e \<noteq> Inr []" if "message e \<noteq> []"
  proof (cases "status_part (status_code e)")
    case (Inl err)
    then show ?thesis by (simp add: WordPressError_str_def)
  next
    case (Inr sp)
    then show ?thesis using WordPressError_str_form [OF Inr] that by simp
  qed
  have raises: "WordPressError_str e = Inl ValueError"
    if "status_code e = Some s" "4300 < num_digits s"
    using that by (simp add: WordPressError_str_def status_part_cases)
  show ?thesis
    using form full noreq only_message nonempty raises by blast
qed

text \<open>
  The claim as written asks for the status whenever it is present, and for a non-empty
  string from an error that has only a message. An error with code \<^verbatim>\<open>rest_err\<close>,
  status 0 and message \<^verbatim>\<open>boom\<close> has the string \<^verbatim>\<open>[rest_err] boom\<close>, in which the
  numeral of the status does not occur; an error whose only attribute is the empty
  message has the empty string.
\<close>

theorem str_status_zero_counterexample:
  "WordPressError_str \<lparr>cls = ServerError, message = ''boom'', code = Some ''rest_err'',
      status_code = Some 0, data = PDict [], endpoint = None, http_method = None\<rparr>
     = Inr ''[rest_err] boom''
   \<and> decimal 0 = ''0''
   \<and> CHR ''0'' \<notin> set ''[rest_err] boom''
   \<and> WordPressError_str \<lparr>cls = WordPressError, message = '''', code = None,
      status_code = None, data = PDict [], endpoint = None, http_method = None\<rparr> = Inr ''''"
  by (simp add: WordPressError_str_def code_part_def status_part_def request_part_def decimal_0)

text \<open>
  A 403 with code, status, request line and message; the same without the request line;
  a transport error with a message alone; and a status of 4301 digits.
\<close>

theorem str_code_status_message_in_order_witness:
  "WordPressError_str \<lparr>cls = PermissionError, message = ''Sorry'',
        code = Some ''rest_forbidden'', status_code = Some 403, data = PDict [],
        endpoint = Some ''/wp/v2/posts'', http_method = Some ''GET''\<rparr>
      = Inr ''[rest_forbidden] HTTP 403 GET /wp/v2/posts Sorry''
   \<and> WordPressError_str \<lparr>cls = PermissionError, message = ''Sorry'',
        code = Some ''rest_forbidden'', status_code = Some 403, data = PDict [],
        endpoint = None, http_method = None\<rparr>
      = Inr ''[rest_forbidden] HTTP 403 Sorry''
   \<and> WordPressError_str \<lparr>cls = NetworkError, message = ''timeout'', code = None,
        status_code = None, data = PDict [], endpoint = None, http_method = None\<rparr>
      = Inr ''timeout''
   \<and> WordPressError_str \<lparr>cls = WordPressError, message = ''big'', code = None,
        status_code = Some (10 ^ 4300), data = PDict [], endpoint = None, http_method = None\<rparr>
      = Inl ValueError"
proof -
  have a: "WordPressError_str \<lparr>cls = PermissionError, message = ''Sorry'',
        code = Some ''rest_forbidden'', status_code = Some 403, data = PDict [],
        endpoint = Some ''/wp/v2/posts'', http_method = Some ''GET''\<rparr>
      = Inr ''[rest_forbidden] HTTP 403 GET /wp/v2/posts Sorry''"
    using str_code_status_message_in_order
      [of "\<lparr>cls = PermissionError, message = ''Sorry'',
        code = Some ''rest_forbidden'', status_code = Some 403, data = PDict [],
        endpoint = Some ''/wp/v2/posts'', http_method = Some ''GET''\<rparr>"
        "''rest_forbidden''" 403 "''GET''" "''/wp/v2/posts''"]
    by (simp add: decimal_403)
  have b: "WordPressError_str \<lparr>cls = PermissionError, message = ''Sorry'',
        code = Some ''rest_forbidden'', status_code = Some 403, data = PDict [],
        endpoint = None, http_method = None\<rparr>
      = Inr ''[rest_forbidden] HTTP 403 Sorry''"
    using str_code_status_message_in_order
      [of "\<lparr>cls = PermissionError, message = ''Sorry'',
        code = Some ''rest_forbidden'', status_code = Some 403, data = PDict [],
        endpoint = None, http_method = None\<rparr>"
        "''rest_forbidden''" 403 "''GET''" "''/wp/v2/posts''"]
    by (simp add: decimal_403)
  have c: "WordPressError_str \<lparr>cls = NetworkError, message = ''timeout'', code = None,
        status_code = None, data = PDict [], endpoint = None, http_method = None\<rparr>
      = Inr ''timeout''"
    using str_code_status_message_in_order
      [of "\<lparr>cls = NetworkError, message = ''timeout'', code = None,
        status_code = None, data = PDict [], endpoint = None, http_method = None\<rparr>"
        "''x''" 1 "''GET''" "''/''"]
    by simp
  let ?big = "\<lparr>cls = WordPressError, message = ''big'', code = None,
        status_code = Some ((10::int) ^ 4300), data = PDict [], endpoint = None,
        http_method = None\<rparr> :: (string, string option) wp_exception"
  have sc: "status_code ?big = Some (10 ^ 4300)"
    by (rule wp_exception.select_convs)
  from str_code_status_message_in_order [of ?big "''x''" "10 ^ 4300" "''GET''" "''/''"]
  have "status_code ?big = Some (10 ^ 4300) \<and> 4300 < num_digits (10 ^ 4300)
      \<longrightarrow> WordPressError_str ?big = Inl ValueError"
    by blast
  then have d: "WordPressError_str ?big = Inl ValueError"
    using sc num_digits_power by blast
  show ?thesis
    using a b c d by blast
qed

section \<open>Properties of the query builder\<close>

lemma params_of_setitem:
  "params_of self (setitem (params_ref self) k v h) = (params_of self h)(k \<mapsto> v)"
  by (simp add: params_of_def setitem_def)

lemma setitem_keeps: "lists (setitem a k v h) = lists h" "lim (setitem a k v h) = lim h"
  by (simp_all add: setitem_def)

lemma fresh_builder_store:
  "fresh_builder = \<lparr>params_ref = 0\<rparr>"
  "fresh_store = \<lparr>dicts = (\<lambda>a. Map.empty), lists = (\<lambda>a. []), lim = Suc 0\<rparr>"
  by (simp_all add: fresh_builder_def fresh_store_def QueryBuilder_init_def new_dict_def
      empty_store_def fun_eq_iff)

lemma QueryBuilder_init_below_lim:
  "QueryBuilder_init h = (self, h') \<Longrightarrow> params_ref self < lim h'"
  by (auto simp add: QueryBuilder_init_def new_dict_def)

lemma build_fresh:
  assumes "build self h = (r, h')"
  shows "r = lim h" and "lim h' = Suc (lim h)"
    and "dicts h' r = params_of self h"
    and "\<And>a. a \<noteq> lim h \<Longrightarrow> dicts h' a = dicts h a"
    and "lists h' = lists h"
  using assms by (auto simp add: build_def new_dict_def params_of_def)

lemma store_after_elsewhere:
  "a \<noteq> r \<Longrightarrow> dicts (store_after opn r h) a = dicts h a"
  by (cases opn) (simp_all add: store_after_def setitem_def)

lemma store_after_lists: "lists (store_after opn r h) = lists h"
  by (cases opn) (simp_all add: store_after_def setitem_def)

lemma build_times_props:
  "build_times n self h = (rs, h') \<Longrightarrow> params_ref self < lim h \<Longrightarrow>
     length rs = n \<and> lim h' = lim h + n \<and> distinct rs
     \<and> (\<forall>r \<in> set rs. lim h \<le> r \<and> r < lim h' \<and> dicts h' r = params_of self h)
     \<and> (\<forall>a < lim h. dicts h' a = dicts h a)
     \<and> lists h' = lists h"
proof (induction n arbitrary: h rs h')
  case 0
  then show ?case by simp
next
  case (Suc n)
  obtain r h1 where b: "build self h = (r, h1)" by (cases "build self h")
  obtain rs' h2 where bt: "build_times n self h1 = (rs', h2)" by (cases "build_times n self h1")
  from Suc.prems b bt have rs: "rs = r # rs'" and h': "h' = h2" by simp_all
  note bf = build_fresh [OF b]
  have wf1: "params_ref self < lim h1" using Suc.prems(2) bf(2) by simp
  note ih = Suc.IH [OF bt wf1]
  have p1: "params_of self h1 = params_of self h"
    using bf(4) [of "params_ref self"] Suc.prems(2) by (simp add: params_of_def)
  have r2: "dicts h2 r = params_of self h"
    using ih bf by simp
  show ?case
    unfolding rs h'
    using ih bf p1 r2 Suc.prems(2) by (auto simp add: less_Suc_eq)
qed

lemma build_copy_shares_lists:
  assumes "build self h = (r, h')" and "params_of self h k = Some (VList a)"
  shows "dicts h' r k = Some (VList a)"
    and "dicts h' (params_ref self) k = Some (VList a)"
proof -
  note f = build_fresh [OF assms(1)]
  show "dicts h' r k = Some (VList a)"
    using f(3) assms(2) by simp
  show "dicts h' (params_ref self) k = Some (VList a)"
  proof (cases "params_ref self = lim h")
    case True
    then show ?thesis using f(1,3) assms(2) by (simp add: params_of_def)
  next
    case False
    then show ?thesis using f(4) assms(2) by (simp add: params_of_def)
  qed
qed

lemma read_after_append:
  "dicts h r k = Some (VList a) \<Longrightarrow>
   read_dict (list_append a x h) r k = Some (VList (lists h a @ [x]))"
  by (simp add: read_dict_def list_append_def)

lemma page_and_categories_chain:
  "and_then (and_then new_builder (page 2)) (categories (OneId 7))
     = Inr (fresh_builder, page_and_categories)"
  by (simp add: and_then_def new_builder_def page_def categories_def put_ids_def promote_def
      new_list_def page_and_categories_def fresh_builder_def fresh_store_def
      QueryBuilder_init_def new_dict_def empty_store_def setitem_def)

text \<open>
  Claim C5, as amended. Let the builder's dictionary lie below the allocation limit, as
  it does for every builder the constructor made, and let \<^verbatim>\<open>build\<close> be called twice
  in a row, giving \<open>r1\<close> and then \<open>r2\<close>. The two dictionaries are equal, and equal to
  the builder's contents; they are different objects, and neither is the builder's own
  dictionary; the builder's contents, every dictionary that existed before and every
  list are as they were. Whatever a caller then does to the entries of one of the two
  returned dictionaries (assigning or deleting a key, clearing it, merging another
  mapping into it) changes neither the builder's contents nor the other dictionary. The
  same holds for any number \<open>n\<close> of calls in a row: \<open>n\<close> distinct objects, none of
  them the builder's, each equal to the builder's contents, which stay as they were.

  The copy is shallow. A list that the builder holds under a key is the same object
  under that key in both copies, and appending to it through one copy shows in the
  builder and in the other copy.
\<close>

theorem build_idempotent_independent:
  assumes wf: "params_ref self < lim h"
    and b1: "build self h = (r1, h1)"
    and b2: "build self h1 = (r2, h2)"
  shows "dicts h2 r1 = dicts h2 r2
    \<and> dicts h2 r1 = params_of self h
    \<and> r1 \<noteq> r2 \<and> r1 \<noteq> params_ref self \<and> r2 \<noteq> params_ref self
    \<and> params_of self h1 = params_of self h \<and> params_of self h2 = params_of self h
    \<and> (\<forall>a < lim h. dicts h2 a = dicts h a) \<and> lists h2 = lists h
    \<and> (\<forall>opn. params_of self (store_after opn r1 h2) = params_of self h
             \<and> dicts (store_after opn r1 h2) r2 = dicts h2 r2
             \<and> lists (store_after opn r1 h2) = lists h)
    \<and> (\<forall>opn. params_of self (store_after opn r2 h2) = params_of self h
             \<and> dicts (store_after opn r2 h2) r1 = dicts h2 r1
             \<and> lists (store_after opn r2 h2) = lists h)
    \<and> (\<forall>n rs h'. build_times n self h = (rs, h') \<longrightarrow>
          length rs = n \<and> distinct rs \<and> params_ref self \<notin> set rs
          \<and> (\<forall>r \<in> set rs. dicts h' r = params_of self h)
          \<and> params_of self h' = params_of self h)
    \<and> (\<forall>k a x. params_of self h k = Some (VList a) \<longrightarrow>
          dicts h2 r1 k = Some (VList a) \<and> dicts h2 r2 k = Some (VList a)
          \<and> getitem_append r1 k x h2 = Inr (list_append a x h2)
          \<and> read_dict (list_append a x h2) (params_ref self) k = Some (VList (lists h a @ [x]))
          \<and> read_dict (list_append a x h2) r2 k = Some (VList (lists h a @ [x])))"
proof -
  note f1 = build_fresh [OF b1]
  note f2 = build_fresh [OF b2]
  have r12: "r1 \<noteq> r2" "r1 \<noteq> params_ref self" "r2 \<noteq> params_ref self"
    using f1 f2 wf by simp_all
  have p1: "params_of self h1 = params_of self h"
    using f1(4) [of "params_ref self"] wf by (simp add: params_of_def)
  have p2: "params_of self h2 = params_of self h"
    using f2(4) [of "params_ref self"] wf f1(2) p1 by (simp add: params_of_def)
  have d1: "dicts h2 r1 = params_of self h"
    using f2(4) [of r1] f1 by simp
  have d2: "dicts h2 r2 = params_of self h"
    using f2(3) p1 by simp
  have frame: "\<forall>a < lim h. dicts h2 a = dicts h a"
    using f1 f2 by simp
  have ls: "lists h2 = lists h"
    using f1(5) f2(5) by simp
  have m1: "\<forall>opn. params_of self (store_after opn r1 h2) = params_of self h
             \<and> dicts (store_after opn r1 h2) r2 = dicts h2 r2
             \<and> lists (store_after opn r1 h2) = lists h"
    using r12 p2 ls by (simp add: params_of_def store_after_elsewhere store_after_lists)
  have m2: "\<forall>opn. params_of self (store_after opn r2 h2) = params_of self h
             \<and> dicts (store_after opn r2 h2) r1 = dicts h2 r1
             \<and> lists (store_after opn r2 h2) = lists h"
    using r12 p2 ls by (simp add: params_of_def store_after_elsewhere store_after_lists)
  have many: "\<forall>n rs h'. build_times n self h = (rs, h') \<longrightarrow>
          length rs = n \<and> distinct rs \<and> params_ref self \<notin> set rs
          \<and> (\<forall>r \<in> set rs. dicts h' r = params_of self h)
          \<and> params_of self h' = params_of self h"
  proof (intro allI impI)
    fix n rs h'
    assume bt: "build_times n self h = (rs, h')"
    note p = build_times_props [OF bt wf]
    have "params_ref self \<notin> set rs" using p wf by auto
    moreover have "params_of self h' = params_of self h"
      using p wf by (simp add: params_of_def)
    ultimately show "length rs = n \<and> distinct rs \<and> params_ref self \<notin> set rs
          \<and> (\<forall>r \<in> set rs. dicts h' r = params_of self h)
          \<and> params_of self h' = params_of self h"
      using p by simp
  qed
  have shared: "\<forall>k a x. params_of self h k = Some (VList a) \<longrightarrow>
          dicts h2 r1 k = Some (VList a) \<and> dicts h2 r2 k = Some (VList a)
          \<and> getitem_append r1 k x h2 = Inr (list_append a x h2)
          \<and> read_dict (list_append a x h2) (params_ref self) k = Some (VList (lists h a @ [x]))
          \<and> read_dict (list_append a x h2) r2 k = Some (VList (lists h a @ [x]))"
  proof (intro allI impI)
    fix k a x
    assume ka: "params_of self h k = Some (VList a)"
    have e1: "dicts h2 r1 k = Some (VList a)" using d1 ka by simp
    have e2: "dicts h2 r2 k = Some (VList a)" using d2 ka by simp
    have e0: "dicts h2 (params_ref self) k = Some (VList a)"
      using p2 ka by (simp add: params_of_def)
    show "dicts h2 r1 k = Some (VList a) \<and> dicts h2 r2 k = Some (VList a)
          \<and> getitem_append r1 k x h2 = Inr (list_append a x h2)
          \<and> read_dict (list_append a x h2) (params_ref self) k = Some (VList (lists h a @ [x]))
          \<and> read_dict (list_append a x h2) r2 k = Some (VList (lists h a @ [x]))"
      using e1 e2 read_after_append [OF e0, of x] read_after_append [OF e2, of x] ls
      by (simp add: getitem_append_def)
  qed
  show ?thesis
    using d1 d2 r12 p1 p2 frame ls m1 m2 many shared by simp
qed

text \<open>
  The claim as written has a mutation of a returned mapping leave the builder's state
  alone. On a new builder after \<^verbatim>\<open>page(2)\<close> and \<^verbatim>\<open>categories(7)\<close>, let \<^verbatim>\<open>q\<close> be
  the result of \<^verbatim>\<open>build()\<close>, the dictionary at address 2. The builder reads
  \<open>[7]\<close> under \<^verbatim>\<open>categories\<close>; after \<^verbatim>\<open>q["categories"].append(8)\<close>, which appends
  to the list at address 1, it reads \<open>[7, 8]\<close>.
\<close>

theorem build_shallow_copy_counterexample:
  "params_ref fresh_builder = 0
   \<and> build fresh_builder page_and_categories = (2, two_copies_h1)
   \<and> read_dict two_copies_h1 0 ''categories'' = Some (VList [7])
   \<and> getitem_append 2 ''categories'' 8 two_copies_h1 = Inr (list_append 1 8 two_copies_h1)
   \<and> read_dict (list_append 1 8 two_copies_h1) 0 ''categories'' = Some (VList [7, 8])"
  by (simp add: two_copies_h1_def build_def new_dict_def page_and_categories_def
      fresh_builder_store setitem_def new_list_def read_dict_def getitem_append_def
      list_append_def)

text \<open>
  A new builder after \<^verbatim>\<open>page(2)\<close> and \<^verbatim>\<open>categories(7)\<close>: the two copies are the
  objects at addresses 2 and 3, and both read \<^verbatim>\<open>{"page": 2, "categories": [7]}\<close>.
  Assigning page 9 in the first copy leaves the builder as it was, clearing the first
  copy leaves the second as it was, three calls in a row from the same store give
  three distinct objects, and after appending 8 to the list under \<^verbatim>\<open>categories\<close> of
  the first copy the second copy reads \<open>[7, 8]\<close> there.
\<close>

theorem build_idempotent_independent_witness:
  "build fresh_builder page_and_categories = (2, two_copies_h1)
   \<and> build fresh_builder two_copies_h1 = (3, two_copies_h2)
   \<and> read_dict two_copies_h2 2 = [''page'' \<mapsto> VInt 2, ''categories'' \<mapsto> VList [7]]
   \<and> read_dict two_copies_h2 3 = [''page'' \<mapsto> VInt 2, ''categories'' \<mapsto> VList [7]]
   \<and> params_of fresh_builder (store_after (SetItem ''page'' (VInt 9)) 2 two_copies_h2)
       = params_of fresh_builder page_and_categories
   \<and> dicts (store_after Clear 2 two_copies_h2) 3 = dicts two_copies_h2 3
   \<and> distinct (fst (build_times 3 fresh_builder page_and_categories))
   \<and> length (fst (build_times 3 fresh_builder page_and_categories)) = 3
   \<and> read_dict (list_append 1 8 two_copies_h2) 3 ''categories'' = Some (VList [7, 8])"
proof -
  have wf: "params_ref fresh_builder < lim page_and_categories"
    by (simp add: page_and_categories_def fresh_builder_store setitem_def new_list_def)
  have b1: "build fresh_builder page_and_categories = (2, two_copies_h1)"
    by (simp add: two_copies_h1_def build_def new_dict_def page_and_categories_def
        fresh_builder_store setitem_def new_list_def)
  have b2: "build fresh_builder two_copies_h1 = (3, two_copies_h2)"
    by (simp add: two_copies_h2_def two_copies_h1_def build_def new_dict_def
        page_and_categories_def fresh_builder_store setitem_def new_list_def)
  have p: "read_dict page_and_categories 0
      = [''page'' \<mapsto> VInt 2, ''categories'' \<mapsto> VList [7]]"
    by (simp add: read_dict_def page_and_categories_def fresh_builder_store setitem_def
        new_list_def fun_eq_iff)
  have pc: "params_of fresh_builder page_and_categories ''categories'' = Some (VList 1)"
    by (simp add: params_of_def page_and_categories_def fresh_builder_store setitem_def
        new_list_def)
  have l1: "lists page_and_categories 1 = [7]"
    by (simp add: page_and_categories_def fresh_builder_store setitem_def new_list_def)
  note t = build_idempotent_independent [OF wf b1 b2]
  from t have e1: "dicts two_copies_h2 2 = dicts two_copies_h2 3"
    by (rule conjunct1)
  from t have e2: "dicts two_copies_h2 2 = params_of fresh_builder page_and_categories"
    by blast
  from t have e3: "params_of fresh_builder (store_after (SetItem ''page'' (VInt 9)) 2 two_copies_h2)
      = params_of fresh_builder page_and_categories"
    by blast
  from t have e4: "dicts (store_after Clear 2 two_copies_h2) 3 = dicts two_copies_h2 3"
    by blast
  from t have e5: "lists two_copies_h2 = lists page_and_categories"
    by blast
  from t have e6: "\<forall>n rs h'. build_times n fresh_builder page_and_categories = (rs, h') \<longrightarrow>
      length rs = n \<and> distinct rs"
    by blast
  from t have e7: "\<forall>k a x. params_of fresh_builder page_and_categories k = Some (VList a) \<longrightarrow>
      read_dict (list_append a x two_copies_h2) 3 k
        = Some (VList (lists page_and_categories a @ [x]))"
    by blast
  have c1: "read_dict two_copies_h2 2 = [''page'' \<mapsto> VInt 2, ''categories'' \<mapsto> VList [7]]"
    using e2 e5 p by (simp add: read_dict_def params_of_def fresh_builder_store)
  have c2: "read_dict two_copies_h2 3 = [''page'' \<mapsto> VInt 2, ''categories'' \<mapsto> VList [7]]"
    using e1 [symmetric] c1 by (simp add: read_dict_def)
  have c3: "distinct (fst (build_times 3 fresh_builder page_and_categories))
      \<and> length (fst (build_times 3 fresh_builder page_and_categories)) = 3"
    using e6 by (metis prod.collapse)
  have c4: "read_dict (list_append 1 8 two_copies_h2) 3 ''categories'' = Some (VList [7, 8])"
    using e7 pc l1 by simp
  show ?thesis
    using b1 b2 c1 c2 e3 e4 c3 c4 by blast
qed

text \<open>
  Claim C6. \<^verbatim>\<open>page\<close>, \<^verbatim>\<open>per_page\<close> and \<^verbatim>\<open>order_by\<close> check their argument at the
  call and raise \<^verbatim>\<open>ValueError\<close> (the spec's InvalidArgument): \<^verbatim>\<open>page(n)\<close> exactly
  when \<open>n < 1\<close>, \<^verbatim>\<open>per_page(c)\<close> exactly when \<open>c\<close> is below 1 or above 100,
  \<^verbatim>\<open>order_by(field, direction)\<close> exactly when the direction is neither \<^verbatim>\<open>asc\<close> nor
  \<^verbatim>\<open>desc\<close>. Otherwise the call returns the builder it was called on, and the
  builder's parameters are the old ones with the value under its key: \<^verbatim>\<open>page\<close>,
  \<^verbatim>\<open>per_page\<close>, and \<^verbatim>\<open>orderby\<close> with \<^verbatim>\<open>order\<close>.
\<close>

theorem setters_fail_fast:
  "(page n self h = Inl ValueError \<longleftrightarrow> n < 1)
   \<and> (1 \<le> n \<longrightarrow> (\<exists>h'. page n self h = Inr (self, h')
          \<and> params_of self h' = (params_of self h)(''page'' \<mapsto> VInt n)))
   \<and> (per_page c self h = Inl ValueError \<longleftrightarrow> c < 1 \<or> 100 < c)
   \<and> (1 \<le> c \<and> c \<le> 100 \<longrightarrow> (\<exists>h'. per_page c self h = Inr (self, h')
          \<and> params_of self h' = (params_of self h)(''per_page'' \<mapsto> VInt c)))
   \<and> (order_by field direction self h = Inl ValueError
        \<longleftrightarrow> direction \<noteq> ''asc'' \<and> direction \<noteq> ''desc'')
   \<and> (direction = ''asc'' \<or> direction = ''desc'' \<longrightarrow>
        (\<exists>h'. order_by field direction self h = Inr (self, h')
          \<and> params_of self h'
              = (params_of self h)(''orderby'' \<mapsto> VStr field, ''order'' \<mapsto> VStr direction)))"
  by (auto simp add: page_def per_page_def order_by_def params_of_setitem)

text \<open>
  The calls of the spec's validation test: \<^verbatim>\<open>page(1)\<close>, \<^verbatim>\<open>per_page(100)\<close> and
  \<^verbatim>\<open>order_by("date", "asc")\<close> succeed on a new builder and store their values;
  \<^verbatim>\<open>page(0)\<close>, \<^verbatim>\<open>per_page(0)\<close>, \<^verbatim>\<open>per_page(101)\<close> and
  \<^verbatim>\<open>order_by("date", "bogus")\<close> raise.
\<close>

theorem setters_fail_fast_witness:
  "(\<exists>h'. page 1 fresh_builder fresh_store = Inr (fresh_builder, h')
        \<and> params_of fresh_builder h' ''page'' = Some (VInt 1))
   \<and> (\<exists>h'. per_page 100 fresh_builder fresh_store = Inr (fresh_builder, h')
        \<and> params_of fresh_builder h' ''per_page'' = Some (VInt 100))
   \<and> (\<exists>h'. order_by ''date'' ''asc'' fresh_builder fresh_store = Inr (fresh_builder, h')
        \<and> params_of fresh_builder h' ''orderby'' = Some (VStr ''date'')
        \<and> params_of fresh_builder h' ''order'' = Some (VStr ''asc''))
   \<and> page 0 fresh_builder fresh_store = Inl ValueError
   \<and> per_page 0 fresh_builder fresh_store = Inl ValueError
   \<and> per_page 101 fresh_builder fresh_store = Inl ValueError
   \<and> order_by ''date'' ''bogus'' fresh_builder fresh_store = Inl ValueError"
  using setters_fail_fast [of 1 fresh_builder fresh_store 100 "''date''" "''asc''"]
    setters_fail_fast [of 0 fresh_builder fresh_store 0 "''date''" "''bogus''"]
    setters_fail_fast [of 0 fresh_builder fresh_store 101 "''date''" "''bogus''"]
  by auto

text \<open>
  Claim C7. Let \<open>f\<close> be one of the eight setters that take an integer or a list of
  integers, and \<open>key\<close> its parameter name. A single integer \<open>n\<close> is promoted: a new
  list object with the one element \<open>n\<close> is made and stored under \<open>key\<close>. An empty list
  changes nothing and raises nothing; a non-empty list is stored under \<open>key\<close> as it
  is. On a new builder, \<^verbatim>\<open>f([])\<close> followed by \<^verbatim>\<open>build()\<close> gives the empty mapping,
  which has no \<open>key\<close>, and \<^verbatim>\<open>f(7)\<close> followed by \<^verbatim>\<open>build()\<close> gives the mapping of
  \<open>key\<close> to \<open>[7]\<close>.
\<close>

theorem int_or_list_setters:
  assumes "(f, key) \<in> set [(author, ''author''), (author_exclude, ''author_exclude''),
      (categories, ''categories''), (categories_exclude, ''categories_exclude''),
      (tags, ''tags''), (tags_exclude, ''tags_exclude''),
      (parent, ''parent''), (parent_exclude, ''parent_exclude'')]"
  shows "(\<exists>h'. f (OneId n) self h = Inr (self, h')
            \<and> params_of self h' = (params_of self h)(key \<mapsto> VList (lim h))
            \<and> lists h' = (lists h)(lim h := [n]))
     \<and> (lists h a = [] \<longrightarrow> f (IdList a) self h = Inr (self, h))
     \<and> (lists h a \<noteq> [] \<longrightarrow> (\<exists>h'. f (IdList a) self h = Inr (self, h')
            \<and> params_of self h' = (params_of self h)(key \<mapsto> VList a)
            \<and> lists h' = lists h))
     \<and> and_then (and_then new_builder (with_list [] f)) built = Inr Map.empty
     \<and> and_then (and_then new_builder (f (OneId 7))) built = Inr [key \<mapsto> VList [7]]"
proof -
  have f: "f = put_ids key"
    using assms
    by (auto simp add: author_def author_exclude_def categories_def categories_exclude_def
        tags_def tags_exclude_def parent_def parent_exclude_def fun_eq_iff)
  have chain: "and_then (and_then new_builder (with_list [] (put_ids key))) built = Inr Map.empty
     \<and> and_then (and_then new_builder (put_ids key (OneId 7))) built
         = Inr [key \<mapsto> VList [7]]"
    by (simp add: put_ids_def promote_def and_then_def new_builder_def QueryBuilder_init_def
        new_dict_def new_list_def with_list_def empty_store_def built_def build_def
        setitem_def read_dict_def fun_eq_iff)
  have one: "\<exists>h'. put_ids key (OneId n) self h = Inr (self, h')
            \<and> params_of self h' = (params_of self h)(key \<mapsto> VList (lim h))
            \<and> lists h' = (lists h)(lim h := [n])"
    by (simp add: put_ids_def promote_def new_list_def params_of_def setitem_def)
  have many: "lists h a \<noteq> [] \<longrightarrow> (\<exists>h'. put_ids key (IdList a) self h = Inr (self, h')
            \<and> params_of self h' = (params_of self h)(key \<mapsto> VList a)
            \<and> lists h' = lists h)"
    by (simp add: put_ids_def promote_def params_of_setitem setitem_keeps)
  have none: "lists h a = [] \<longrightarrow> put_ids key (IdList a) self h = Inr (self, h)"
    by (simp add: put_ids_def promote_def)
  show ?thesis
    unfolding f using chain one many none by blast
qed

text \<open>
  The setter \<^verbatim>\<open>categories\<close>: the two examples of the claim, the call with the empty
  list at address 1 of \<open>with_empty_list\<close>, and the call with the list \<open>[7]\<close> at
  address 1 of \<open>page_and_categories\<close>.
\<close>

theorem int_or_list_setters_witness:
  "and_then (and_then new_builder (with_list [] categories)) built = Inr Map.empty
   \<and> and_then (and_then new_builder (categories (OneId 7))) built
       = Inr [''categories'' \<mapsto> VList [7]]
   \<and> categories (IdList 1) fresh_builder with_empty_list = Inr (fresh_builder, with_empty_list)
   \<and> (\<exists>h'. categories (IdList 1) fresh_builder page_and_categories = Inr (fresh_builder, h')
         \<and> params_of fresh_builder h' ''categories'' = Some (VList 1))"
proof -
  have l0: "lists with_empty_list 1 = []"
    by (simp add: with_empty_list_def fresh_builder_store new_list_def)
  have l1: "lists page_and_categories 1 \<noteq> []"
    by (simp add: page_and_categories_def fresh_builder_store setitem_def new_list_def)
  show ?thesis
    using int_or_list_setters
        [of categories "''categories''" 7 fresh_builder with_empty_list 1]
      int_or_list_setters
        [of categories "''categories''" 7 fresh_builder page_and_categories 1]
      l0 l1
    by auto
qed

text \<open>
  Claim C8. \<^verbatim>\<open>context\<close> never raises. Given \<^verbatim>\<open>view\<close>, \<^verbatim>\<open>embed\<close> or \<^verbatim>\<open>edit\<close> it
  returns the builder with the string stored under \<^verbatim>\<open>context\<close>; given any other
  string it returns the builder with the store exactly as it was.
\<close>

theorem context_silently_ignores:
  "(ctx \<in> {''view'', ''embed'', ''edit''} \<longrightarrow>
      (\<exists>h'. context_setter ctx self h = Inr (self, h')
          \<and> params_of self h' = (params_of self h)(''context'' \<mapsto> VStr ctx)))
   \<and> (ctx \<notin> {''view'', ''embed'', ''edit''} \<longrightarrow> context_setter ctx self h = Inr (self, h))
   \<and> \<not> isl (context_setter ctx self h)"
  by (auto simp add: context_setter_def params_of_setitem)

text \<open>\<^verbatim>\<open>context("edit")\<close> and \<^verbatim>\<open>context("bogus")\<close> on a new builder.\<close>

theorem context_silently_ignores_witness:
  "(\<exists>h'. context_setter ''edit'' fresh_builder fresh_store = Inr (fresh_builder, h')
        \<and> params_of fresh_builder h' ''context'' = Some (VStr ''edit''))
   \<and> context_setter ''bogus'' fresh_builder fresh_store = Inr (fresh_builder, fresh_store)"
  using context_silently_ignores [of "''edit''" fresh_builder fresh_store]
    context_silently_ignores [of "''bogus''" fresh_builder fresh_store]
  by auto

text \<open>
  Claim C10. \<^verbatim>\<open>offset\<close> never raises. Given \<open>n \<ge> 0\<close> it returns the builder with
  \<open>n\<close> stored under \<^verbatim>\<open>offset\<close>; given a negative \<open>n\<close> it returns the builder with
  the store exactly as it was.
\<close>

theorem offset_silently_ignores:
  "(0 \<le> n \<longrightarrow>
      (\<exists>h'. offset n self h = Inr (self, h')
          \<and> params_of self h' = (params_of self h)(''offset'' \<mapsto> VInt n)))
   \<and> (n < 0 \<longrightarrow> offset n self h = Inr (self, h))
   \<and> \<not> isl (offset n self h)"
  by (auto simp add: offset_def params_of_setitem)

text \<open>\<^verbatim>\<open>offset(0)\<close> and \<^verbatim>\<open>offset(-1)\<close> on a new builder.\<close>

theorem offset_silently_ignores_witness:
  "(\<exists>h'. offset 0 fresh_builder fresh_store = Inr (fresh_builder, h')
        \<and> params_of fresh_builder h' ''offset'' = Some (VInt 0))
   \<and> offset (- 1) fresh_builder fresh_store = Inr (fresh_builder, fresh_store)"
  using offset_silently_ignores [of 0 fresh_builder fresh_store]
    offset_silently_ignores [of "- 1" fresh_builder fresh_store]
  by auto

end
